theory Spec2Isabelle
  imports Main "HOL-Library.Word"
begin

unbundle bit_operations_syntax

section \<open>Block primitives of primitives/block.h\<close>

text \<open>
  The header file defines \<open>CBlockHeader\<close>, \<open>CBlock\<close> (which inherits from the
  header) and \<open>CBlockLocator\<close>. Classes are records, the inheritance is a record
  extension, \<open>int\<close> and \<open>unsigned int\<close> are 32-bit words (\<open>sint\<close> reads the signed
  ones), \<open>uint256\<close> is a 256-bit word, a \<open>std::vector\<close> is a list and a byte stream
  is a list of bytes.
\<close>

type_synonym byte = "8 word"
type_synonym uint32 = "32 word"
type_synonym int32 = "32 word"
type_synonym uint256 = "256 word"

subsection \<open>Undefined behaviour as a value\<close>

text \<open>
  \<open>std::vector::operator[]\<close> does no bounds check: an index at or past \<open>size()\<close> is
  undefined behaviour. The model makes that outcome a value of its own, so that a
  function that indexes before it checks the size is seen to do so.
\<close>

datatype error = OutOfRange

definition vector_at :: "'a list \<Rightarrow> nat \<Rightarrow> error + 'a" where
  "vector_at v i = (if i < length v then Inr (v ! i) else Inl OutOfRange)"

subsection \<open>The members of primitives/transaction.h that block.h reads\<close>

text \<open>
  The transaction header is not part of the sources at hand. block.h reads
  \<open>tx.vin[0].prevout\<close>, \<open>tx.nTime\<close>, calls \<open>tx.IsCoinStake()\<close> and
  default-constructs a \<open>COutPoint\<close>. The records below carry exactly the members read;
  \<open>IsCoinStake\<close> and the default-constructed outpoint are parameters of the functions
  that use them. A \<open>CTransactionRef\<close> (a shared pointer to a constant transaction) is
  the transaction it points to.
\<close>

datatype COutPoint = COutPoint uint256 uint32

record CTxIn =
  prevout :: COutPoint

record CTransaction =
  vin :: "CTxIn list"
  nTime :: uint32

subsection \<open>CBlockHeader\<close>

definition LEGACY_VERSION_2 :: int where
  "LEGACY_VERSION_2 = 2"

definition LEGACY_VERSION_3 :: int where
  "LEGACY_VERSION_3 = 3"

definition CURRENT_VERSION :: int where
  "CURRENT_VERSION = 4"

record CBlockHeader =
  nVersion :: int32
  hashPrevBlock :: uint256
  hashMerkleRoot :: uint256
  nTime :: uint32
  nBits :: uint32
  nNonce :: uint32

definition CBlockHeader_SetNull :: "'a CBlockHeader_scheme \<Rightarrow> 'a CBlockHeader_scheme" where
  "CBlockHeader_SetNull h =
     h\<lparr>nVersion := 0, hashPrevBlock := 0, hashMerkleRoot := 0,
       nTime := 0, nBits := 0, nNonce := 0\<rparr>"

definition CBlockHeader_IsNull :: "'a CBlockHeader_scheme \<Rightarrow> bool" where
  "CBlockHeader_IsNull h = (nBits h = 0)"

definition GetBlockTime :: "'a CBlockHeader_scheme \<Rightarrow> 64 word" where
  "GetBlockTime h = ucast (nTime h)"

subsection \<open>CBlock\<close>

record CBlock = CBlockHeader +
  vtx :: "CTransaction list"
  vchBlockSig :: "byte list"
  vMerkleTree :: "uint256 list"
  nDoS :: int32
  fChecked :: bool

text \<open>\<open>CBlock::SetNull\<close>, and the block that the default constructor leaves.\<close>

definition CBlock_SetNull :: "CBlock \<Rightarrow> CBlock" where
  "CBlock_SetNull b =
     (CBlockHeader_SetNull b)\<lparr>vtx := [], vchBlockSig := [], vMerkleTree := [],
       nDoS := 0, fChecked := False\<rparr>"

definition CBlock_new :: CBlock where
  "CBlock_new =
     \<lparr>nVersion = 0, hashPrevBlock = 0, hashMerkleRoot = 0, nTime = 0, nBits = 0,
      nNonce = 0, vtx = [], vchBlockSig = [], vMerkleTree = [], nDoS = 0,
      fChecked = False\<rparr>"

definition GetBlockHeader :: "CBlock \<Rightarrow> CBlockHeader" where
  "GetBlockHeader b =
     \<lparr>nVersion = nVersion b, hashPrevBlock = hashPrevBlock b,
      hashMerkleRoot = hashMerkleRoot b, nTime = nTime b, nBits = nBits b,
      nNonce = nNonce b\<rparr>"

text \<open>
  \<open>bool DoS(int nDoSIn, bool fIn) const { nDoS += nDoSIn; return fIn; }\<close>:
  \<open>nDoS\<close> is a mutable \<open>int\<close>; the block is returned updated beside the result.
  The addition is that of 32-bit words and wraps around.
\<close>

definition DoS :: "int32 \<Rightarrow> bool \<Rightarrow> CBlock \<Rightarrow> CBlock \<times> bool" where
  "DoS nDoSIn fIn b = (b\<lparr>nDoS := nDoS b + nDoSIn\<rparr>, fIn)"

text \<open>
  \<open>IsProofOfStake\<close> binds \<open>tx\<close> to \<open>*vtx[1]\<close> in its first statement and tests
  \<open>vtx.size() > 1\<close> in its second.
\<close>

definition IsProofOfStake :: "(CTransaction \<Rightarrow> bool) \<Rightarrow> CBlock \<Rightarrow> error + bool" where
  "IsProofOfStake IsCoinStake b =
     (case vector_at (vtx b) 1 of
        Inl e \<Rightarrow> Inl e
      | Inr tx \<Rightarrow> Inr (1 < length (vtx b) \<and> IsCoinStake tx))"

definition IsProofOfWork :: "(CTransaction \<Rightarrow> bool) \<Rightarrow> CBlock \<Rightarrow> error + bool" where
  "IsProofOfWork IsCoinStake b =
     (case IsProofOfStake IsCoinStake b of
        Inl e \<Rightarrow> Inl e
      | Inr p \<Rightarrow> Inr (\<not> p))"

text \<open>
  \<open>GetProofOfStake\<close> binds \<open>tx\<close> to \<open>*vtx[1]\<close> first as well, then returns
  \<open>(tx.vin[0].prevout, tx.nTime)\<close> for a proof-of-stake block and
  \<open>(COutPoint(), 0)\<close> otherwise. \<open>COutPoint_default\<close> stands for \<open>COutPoint()\<close>.
\<close>

definition GetProofOfStake ::
  "(CTransaction \<Rightarrow> bool) \<Rightarrow> COutPoint \<Rightarrow> CBlock \<Rightarrow> error + (COutPoint \<times> uint32)" where
  "GetProofOfStake IsCoinStake COutPoint_default b =
     (case vector_at (vtx b) 1 of
        Inl e \<Rightarrow> Inl e
      | Inr tx \<Rightarrow>
          (case IsProofOfStake IsCoinStake b of
             Inl e \<Rightarrow> Inl e
           | Inr True \<Rightarrow>
               (case vector_at (vin tx) 0 of
                  Inl e \<Rightarrow> Inl e
                | Inr txin \<Rightarrow> Inr (prevout txin, CTransaction.nTime tx))
           | Inr False \<Rightarrow> Inr (COutPoint_default, 0)))"

subsection \<open>CBlockLocator\<close>

record CBlockLocator =
  vHave :: "uint256 list"

definition CBlockLocator_SetNull :: "CBlockLocator \<Rightarrow> CBlockLocator" where
  "CBlockLocator_SetNull l = l\<lparr>vHave := []\<rparr>"

definition CBlockLocator_IsNull :: "CBlockLocator \<Rightarrow> bool" where
  "CBlockLocator_IsNull l = (vHave l = [])"

section \<open>Serialization\<close>

subsection \<open>Fixed-width fields\<close>

text \<open>
  Modelled from the spec: serialize.h and uint256.h, which define how an \<open>int\<close>, an
  \<open>unsigned int\<close> and a \<open>uint256\<close> are written to a stream, are not part of the
  sources at hand. The spec (section 6) gives the header layout as fixed-width
  little-endian fields, \<open>version:i32, prev_hash:32B, merkle_root:32B, time:u32,
  bits:u32, nonce:u32\<close>. \<open>le_bytes k w\<close> is the \<open>k\<close> low bytes of \<open>w\<close>, lowest first,
  and \<open>le_word\<close> reads them back.
\<close>

fun le_bytes :: "nat \<Rightarrow> 'a::len word \<Rightarrow> byte list" where
  "le_bytes 0 w = []"
| "le_bytes (Suc k) w = ucast w # le_bytes k (drop_bit 8 w)"

fun le_word :: "byte list \<Rightarrow> 'a::len word" where
  "le_word [] = 0"
| "le_word (c # cs) = ucast c OR push_bit 8 (le_word cs)"

definition ser_writedata32 :: "32 word \<Rightarrow> byte list" where
  "ser_writedata32 w = le_bytes 4 w"

definition uint256_Serialize :: "uint256 \<Rightarrow> byte list" where
  "uint256_Serialize w = le_bytes 32 w"

text \<open>
  Reading takes the field's bytes off the front of the stream. A stream that holds
  fewer bytes makes the read throw (\<open>None\<close>) and consumes nothing.
\<close>

definition read_le :: "nat \<Rightarrow> byte list \<Rightarrow> ('a::len word \<times> byte list) option" where
  "read_le k s = (if length s < k then None else Some (le_word (take k s), drop k s))"

definition ser_readdata32 :: "byte list \<Rightarrow> (32 word \<times> byte list) option" where
  "ser_readdata32 s = read_le 4 s"

definition uint256_Unserialize :: "byte list \<Rightarrow> (uint256 \<times> byte list) option" where
  "uint256_Unserialize s = read_le 32 s"

subsection \<open>What serialize.h provides besides\<close>

text \<open>
  Unserializing works in place: \<open>READWRITE(x)\<close> in a reading action overwrites the
  member \<open>x\<close> of the object that is being read. The outcome of a read is therefore
  the object as the read left it, together with the rest of the stream (\<open>Done\<close>),
  or the object as it stood when the stream threw (\<open>Threw\<close>).
\<close>

datatype 'a unser = Done 'a "byte list" | Threw 'a

text \<open>Whether a read threw, and the object as the read left it.\<close>

primrec threw :: "'a unser \<Rightarrow> bool" where
  "threw (Done d s) = False"
| "threw (Threw d) = True"

primrec object_left :: "'a unser \<Rightarrow> 'a" where
  "object_left (Done d s) = d"
| "object_left (Threw d) = d"

text \<open>
  The parts of serialize.h that the serialization of a block and of a locator use
  and whose definition the spec does not give are parameters, collected in one record:
  the two stream type flags, the writer of a length prefix, the serializer of one
  transaction, and the in-place readers of a \<open>std::vector<CTransactionRef>\<close> and of
  a \<open>std::vector<unsigned char>\<close> (given the stream and the vector as it stands).
\<close>

record serialize_h =
  SER_GETHASH :: uint32
  SER_BLOCKHEADERONLY :: uint32
  WriteCompactSize :: "nat \<Rightarrow> byte list"
  Serialize_tx :: "CTransaction \<Rightarrow> byte list"
  Unserialize_vtx :: "byte list \<Rightarrow> CTransaction list \<Rightarrow> CTransaction list unser"
  Unserialize_vch :: "byte list \<Rightarrow> byte list \<Rightarrow> byte list unser"

text \<open>
  Modelled from the spec: the serializer of a \<open>std::vector\<close> is in serialize.h. The
  spec (section 6) has the transactions as a length-prefixed sequence of transaction
  encodings, the signature as a length-prefixed byte sequence and the locator's hashes
  as a length-prefixed sequence of 32-byte hashes.
\<close>

definition Serialize_vector :: "(nat \<Rightarrow> byte list) \<Rightarrow> ('a \<Rightarrow> byte list) \<Rightarrow> 'a list \<Rightarrow> byte list" where
  "Serialize_vector wcs ser v = wcs (length v) @ concat (map ser v)"

text \<open>One \<open>READWRITE\<close> of a reading action after another: a throw ends the sequence.\<close>

definition and_then :: "'d unser \<Rightarrow> (byte list \<Rightarrow> 'd \<Rightarrow> 'd unser) \<Rightarrow> 'd unser" where
  "and_then r f = (case r of Threw d \<Rightarrow> Threw d | Done d s \<Rightarrow> f s d)"

text \<open>\<open>READWRITE\<close> of a fixed-width member, and of a vector member, when reading.\<close>

definition read_into ::
  "(byte list \<Rightarrow> ('v \<times> byte list) option) \<Rightarrow> ('v \<Rightarrow> 'd \<Rightarrow> 'd) \<Rightarrow> byte list \<Rightarrow> 'd \<Rightarrow> 'd unser" where
  "read_into rd store s d =
     (case rd s of None \<Rightarrow> Threw d | Some (v, s') \<Rightarrow> Done (store v d) s')"

definition read_member ::
  "(byte list \<Rightarrow> 'v \<Rightarrow> 'v unser) \<Rightarrow> ('d \<Rightarrow> 'v) \<Rightarrow> ('v \<Rightarrow> 'd \<Rightarrow> 'd) \<Rightarrow> byte list \<Rightarrow> 'd \<Rightarrow> 'd unser" where
  "read_member unserialize member store s d =
     (case unserialize s (member d) of
        Threw v \<Rightarrow> Threw (store v d)
      | Done v s' \<Rightarrow> Done (store v d) s')"

subsection \<open>CBlockHeader::SerializationOp\<close>

definition CBlockHeader_Serialize :: "'a CBlockHeader_scheme \<Rightarrow> byte list" where
  "CBlockHeader_Serialize h =
     ser_writedata32 (nVersion h) @
     uint256_Serialize (hashPrevBlock h) @
     uint256_Serialize (hashMerkleRoot h) @
     ser_writedata32 (nTime h) @
     ser_writedata32 (nBits h) @
     ser_writedata32 (nNonce h)"

definition CBlockHeader_Unserialize ::
  "byte list \<Rightarrow> 'a CBlockHeader_scheme \<Rightarrow> 'a CBlockHeader_scheme unser" where
  "CBlockHeader_Unserialize s h =
     and_then (and_then (and_then (and_then (and_then
       (read_into ser_readdata32 (\<lambda>v h. h\<lparr>nVersion := v\<rparr>) s h)
       (read_into uint256_Unserialize (\<lambda>v h. h\<lparr>hashPrevBlock := v\<rparr>)))
       (read_into uint256_Unserialize (\<lambda>v h. h\<lparr>hashMerkleRoot := v\<rparr>)))
       (read_into ser_readdata32 (\<lambda>v h. h\<lparr>nTime := v\<rparr>)))
       (read_into ser_readdata32 (\<lambda>v h. h\<lparr>nBits := v\<rparr>)))
       (read_into ser_readdata32 (\<lambda>v h. h\<lparr>nNonce := v\<rparr>))"

text \<open>
  \<open>GetHash\<close> is \<open>Hash(BEGIN(nVersion), END(nNonce))\<close>: the hash of the object's bytes
  from the first byte of \<open>nVersion\<close> to the last byte of \<open>nNonce\<close>. The function
  \<open>Hash\<close> of hash.h is a parameter. The six members lie between the two addresses in
  the order of their declaration, each lowest byte first: the 80 bytes that the spec
  (section 6) names as the input of the identity hash.
\<close>

definition GetHash :: "(byte list \<Rightarrow> uint256) \<Rightarrow> 'a CBlockHeader_scheme \<Rightarrow> uint256" where
  "GetHash Hash h =
     Hash (le_bytes 4 (nVersion h) @ le_bytes 32 (hashPrevBlock h) @
           le_bytes 32 (hashMerkleRoot h) @ le_bytes 4 (nTime h) @
           le_bytes 4 (nBits h) @ le_bytes 4 (nNonce h))"

subsection \<open>CBlock::SerializationOp\<close>

definition fHeaderOnly :: "serialize_h \<Rightarrow> uint32 \<Rightarrow> bool" where
  "fHeaderOnly env nType = (nType AND SER_BLOCKHEADERONLY env \<noteq> 0)"

text \<open>The writing action: the branch for reading does nothing here.\<close>

definition CBlock_Serialize :: "serialize_h \<Rightarrow> uint32 \<Rightarrow> CBlock \<Rightarrow> byte list" where
  "CBlock_Serialize env nType b =
     CBlockHeader_Serialize b @
     (if \<not> fHeaderOnly env nType \<or> LEGACY_VERSION_3 \<le> sint (nVersion b) then
        Serialize_vector (WriteCompactSize env) (Serialize_tx env) (vtx b) @
        (if \<not> fHeaderOnly env nType \<and> LEGACY_VERSION_3 \<le> sint (nVersion b) then
           Serialize_vector (WriteCompactSize env) (\<lambda>c. [c]) (vchBlockSig b)
         else [])
      else [])"

text \<open>
  The reading action. The version that decides the branches is the one just read
  into the block.
\<close>

definition CBlock_Unserialize :: "serialize_h \<Rightarrow> uint32 \<Rightarrow> byte list \<Rightarrow> CBlock \<Rightarrow> CBlock unser" where
  "CBlock_Unserialize env nType s b =
     and_then (CBlockHeader_Unserialize s b) (\<lambda>s b.
       if \<not> fHeaderOnly env nType \<or> LEGACY_VERSION_3 \<le> sint (nVersion b) then
         and_then (read_member (Unserialize_vtx env) vtx (\<lambda>v b. b\<lparr>vtx := v\<rparr>) s b) (\<lambda>s b.
           if \<not> fHeaderOnly env nType \<and> LEGACY_VERSION_3 \<le> sint (nVersion b) then
             read_member (Unserialize_vch env) vchBlockSig (\<lambda>v b. b\<lparr>vchBlockSig := v\<rparr>) s b
           else Done b s)
       else Done (b\<lparr>vtx := [], vchBlockSig := []\<rparr>) s)"

subsection \<open>CBlockLocator::SerializationOp\<close>

text \<open>\<open>sVersion\<close> is \<open>s.GetVersion()\<close>, which the function copies into a local.\<close>

definition CBlockLocator_Serialize ::
  "serialize_h \<Rightarrow> uint32 \<Rightarrow> int32 \<Rightarrow> CBlockLocator \<Rightarrow> byte list" where
  "CBlockLocator_Serialize env nType sVersion l =
     (if nType AND SER_GETHASH env = 0 then ser_writedata32 sVersion else []) @
     Serialize_vector (WriteCompactSize env) uint256_Serialize (vHave l)"

subsection \<open>A small instance of the parameters\<close>

text \<open>
  An instance of the parameters on which the functions can be run: a length prefix of
  one byte, and transactions without inputs, written as their time stamp. The flags
  have the values \<open>1 << 2\<close> and \<open>1 << 17\<close>.
\<close>

definition mini_WriteCompactSize :: "nat \<Rightarrow> byte list" where
  "mini_WriteCompactSize k = [of_nat k]"

definition mini_Serialize_tx :: "CTransaction \<Rightarrow> byte list" where
  "mini_Serialize_tx tx = ser_writedata32 (CTransaction.nTime tx)"

fun mini_read_txs :: "nat \<Rightarrow> byte list \<Rightarrow> CTransaction list \<Rightarrow> CTransaction list unser" where
  "mini_read_txs 0 s v = Done v s"
| "mini_read_txs (Suc k) s v =
     (case ser_readdata32 s of
        None \<Rightarrow> Threw v
      | Some (t, s') \<Rightarrow> mini_read_txs k s' (v @ [\<lparr>vin = [], nTime = t\<rparr>]))"

definition mini_Unserialize_vtx :: "byte list \<Rightarrow> CTransaction list \<Rightarrow> CTransaction list unser" where
  "mini_Unserialize_vtx s v =
     (case s of [] \<Rightarrow> Threw v | c # r \<Rightarrow> mini_read_txs (unat c) r [])"

definition mini_Unserialize_vch :: "byte list \<Rightarrow> byte list \<Rightarrow> byte list unser" where
  "mini_Unserialize_vch s v =
     (case s of
        [] \<Rightarrow> Threw v
      | c # r \<Rightarrow> if length r < unat c then Threw [] else Done (take (unat c) r) (drop (unat c) r))"

definition mini_env :: serialize_h where
  "mini_env =
     \<lparr>SER_GETHASH = 4, SER_BLOCKHEADERONLY = 131072,
      WriteCompactSize = mini_WriteCompactSize, Serialize_tx = mini_Serialize_tx,
      Unserialize_vtx = mini_Unserialize_vtx, Unserialize_vch = mini_Unserialize_vch\<rparr>"

text \<open>A block of a given version with two transactions and a signature of three bytes.\<close>

definition example_block :: "int32 \<Rightarrow> CBlock" where
  "example_block v =
     CBlock_new\<lparr>nVersion := v, vtx := [\<lparr>vin = [], nTime = 7\<rparr>, \<lparr>vin = [], nTime = 8\<rparr>],
       vchBlockSig := [1, 2, 3]\<rparr>"

section \<open>Properties\<close>

subsection \<open>Fixed-width fields are read back as written\<close>

lemma length_le_bytes: "length (le_bytes k w) = k"
  by (induction k arbitrary: w) simp_all

lemma le_word_le_bytes:
  "(le_word (le_bytes k w) :: 'a::len word) = take_bit (8 * k) (w :: 'a word)"
proof (induction k arbitrary: w)
  case 0
  then show ?case by simp
next
  case (Suc k)
  have "ucast (ucast w :: byte) OR push_bit 8 (take_bit (8 * k) (drop_bit 8 w)) =
        take_bit (8 + 8 * k) w"
    by (rule bit_word_eqI) (auto simp add: bit_simps)
  with Suc show ?case by simp
qed

lemma read_le_le_bytes:
  "LENGTH('a::len) \<le> 8 * k \<Longrightarrow> read_le k (le_bytes k (w :: 'a word) @ r) = Some (w, r)"
  by (simp add: read_le_def length_le_bytes le_word_le_bytes take_bit_word_eq_self)

lemma ser_readdata32_writedata32: "ser_readdata32 (ser_writedata32 w @ r) = Some (w, r)"
  by (simp add: ser_readdata32_def ser_writedata32_def read_le_le_bytes)

lemma uint256_Unserialize_Serialize:
  "uint256_Unserialize (uint256_Serialize w @ r) = Some (w, r)"
  by (simp add: uint256_Unserialize_def uint256_Serialize_def read_le_le_bytes)

lemma length_CBlockHeader_Serialize: "length (CBlockHeader_Serialize h) = 80"
  by (simp add: CBlockHeader_Serialize_def ser_writedata32_def uint256_Serialize_def
      length_le_bytes)

lemma CBlockHeader_roundtrip:
  "CBlockHeader_Unserialize (CBlockHeader_Serialize b @ r) d =
     Done (d\<lparr>nVersion := nVersion b, hashPrevBlock := hashPrevBlock b,
             hashMerkleRoot := hashMerkleRoot b, nTime := nTime b, nBits := nBits b,
             nNonce := nNonce b\<rparr>) r"
  by (simp add: CBlockHeader_Unserialize_def CBlockHeader_Serialize_def and_then_def
      read_into_def ser_readdata32_writedata32 uint256_Unserialize_Serialize)

subsection \<open>Proof-of-stake discrimination\<close>

text \<open>With two transactions or more the index is in range and the answer is that of
  \<open>IsCoinStake\<close> on transaction 1; an answer is given only then.\<close>

lemma IsProofOfStake_two_or_more:
  "1 < length (vtx b) \<Longrightarrow> IsProofOfStake IsCoinStake b = Inr (IsCoinStake (vtx b ! 1))"
  by (simp add: IsProofOfStake_def vector_at_def)

lemma IsProofOfStake_Inr_length:
  "IsProofOfStake IsCoinStake b = Inr p \<Longrightarrow> 1 < length (vtx b)"
  by (auto simp add: IsProofOfStake_def vector_at_def split: if_splits)

lemma IsProofOfWork_two_or_more:
  "1 < length (vtx b) \<Longrightarrow> IsProofOfWork IsCoinStake b = Inr (\<not> IsCoinStake (vtx b ! 1))"
  by (simp add: IsProofOfWork_def IsProofOfStake_two_or_more)

text \<open>
  C1. \<open>IsProofOfStake\<close> is to answer false for a block with at most one transaction.
  On a block without transactions (as the default constructor and \<open>SetNull\<close> leave
  it) the function reads \<open>vtx[1]\<close> of an empty vector before it compares the size:
  the outcome is the out-of-range read, not the answer false.
\<close>

theorem IsProofOfStake_no_transactions:
  "IsProofOfStake IsCoinStake (b\<lparr>vtx := []\<rparr>) = Inl OutOfRange \<and>
   IsProofOfStake IsCoinStake (b\<lparr>vtx := []\<rparr>) \<noteq> Inr False"
  by (simp add: IsProofOfStake_def vector_at_def)

text \<open>
  C4. The three queries are to read transaction 1 only when the block has more than
  one transaction. On the block that the default constructor leaves (no transaction
  at all) each of \<open>IsProofOfStake\<close>, \<open>IsProofOfWork\<close> and \<open>GetProofOfStake\<close>
  reaches the out-of-range read: the read comes first, the size test second.
\<close>

theorem index_1_read_before_size_test:
  "IsProofOfStake IsCoinStake CBlock_new = Inl OutOfRange \<and>
   IsProofOfWork IsCoinStake CBlock_new = Inl OutOfRange \<and>
   GetProofOfStake IsCoinStake COutPoint_default CBlock_new = Inl OutOfRange"
  by (simp add: IsProofOfStake_def IsProofOfWork_def GetProofOfStake_def vector_at_def
      CBlock_new_def)

text \<open>
  C5, as the code has it. For a proof-of-work block \<open>GetProofOfStake\<close> returns the
  pair of a default-constructed outpoint and the time 0, a pair like any other and
  not an absent value; for a proof-of-stake block whose transaction 1 has an input it
  returns that first input's \<open>prevout\<close> and the time of transaction 1. (Either
  hypothesis holds only of a block with more than one transaction.)
\<close>

theorem GetProofOfStake_sentinel_or_kernel:
  "(IsProofOfWork IsCoinStake b = Inr True \<longrightarrow>
      GetProofOfStake IsCoinStake COutPoint_default b = Inr (COutPoint_default, 0)) \<and>
   (IsProofOfStake IsCoinStake b = Inr True \<and> vin (vtx b ! 1) \<noteq> [] \<longrightarrow>
      GetProofOfStake IsCoinStake COutPoint_default b =
        Inr (prevout (vin (vtx b ! 1) ! 0), CTransaction.nTime (vtx b ! 1)))"
  by (auto simp add: IsProofOfWork_def IsProofOfStake_def GetProofOfStake_def vector_at_def
      split: if_splits sum.splits bool.splits)

text \<open>The theorem at a proof-of-work block and at a proof-of-stake block of two
  transactions each, where a transaction counts as a stake when it has an input.\<close>

theorem GetProofOfStake_sentinel_or_kernel_witness:
  "IsProofOfWork (\<lambda>tx. vin tx \<noteq> [])
     (CBlock_new\<lparr>vtx := [\<lparr>vin = [], nTime = 7\<rparr>, \<lparr>vin = [], nTime = 8\<rparr>]\<rparr>) = Inr True \<and>
   GetProofOfStake (\<lambda>tx. vin tx \<noteq> []) (COutPoint 0 0)
     (CBlock_new\<lparr>vtx := [\<lparr>vin = [], nTime = 7\<rparr>, \<lparr>vin = [], nTime = 8\<rparr>]\<rparr>) =
     Inr (COutPoint 0 0, 0) \<and>
   IsProofOfStake (\<lambda>tx. vin tx \<noteq> [])
     (CBlock_new\<lparr>vtx := [\<lparr>vin = [], nTime = 7\<rparr>,
        \<lparr>vin = [\<lparr>prevout = COutPoint 5 1\<rparr>], nTime = 9\<rparr>]\<rparr>) = Inr True \<and>
   GetProofOfStake (\<lambda>tx. vin tx \<noteq> []) (COutPoint 0 0)
     (CBlock_new\<lparr>vtx := [\<lparr>vin = [], nTime = 7\<rparr>,
        \<lparr>vin = [\<lparr>prevout = COutPoint 5 1\<rparr>], nTime = 9\<rparr>]\<rparr>) = Inr (COutPoint 5 1, 9)"
  using
    GetProofOfStake_sentinel_or_kernel [of "\<lambda>tx. vin tx \<noteq> []"
      "CBlock_new\<lparr>vtx := [\<lparr>vin = [], nTime = 7\<rparr>, \<lparr>vin = [], nTime = 8\<rparr>]\<rparr>" "COutPoint 0 0"]
    GetProofOfStake_sentinel_or_kernel [of "\<lambda>tx. vin tx \<noteq> []"
      "CBlock_new\<lparr>vtx := [\<lparr>vin = [], nTime = 7\<rparr>,
         \<lparr>vin = [\<lparr>prevout = COutPoint 5 1\<rparr>], nTime = 9\<rparr>]\<rparr>" "COutPoint 0 0"]
  by (simp add: IsProofOfWork_def IsProofOfStake_def vector_at_def)

text \<open>C5 as stated fails: a proof-of-work block of two transactions gets the pair of
  the default outpoint and 0, the sentinel that the claim excludes.\<close>

theorem GetProofOfStake_sentinel_counterexample:
  "IsProofOfWork (\<lambda>tx. vin tx \<noteq> [])
     (CBlock_new\<lparr>vtx := [\<lparr>vin = [], nTime = 7\<rparr>, \<lparr>vin = [], nTime = 8\<rparr>]\<rparr>) = Inr True \<and>
   GetProofOfStake (\<lambda>tx. vin tx \<noteq> []) (COutPoint 0 0)
     (CBlock_new\<lparr>vtx := [\<lparr>vin = [], nTime = 7\<rparr>, \<lparr>vin = [], nTime = 8\<rparr>]\<rparr>) =
     Inr (COutPoint 0 0, 0)"
  by (simp add: IsProofOfWork_def IsProofOfStake_def GetProofOfStake_def vector_at_def)

subsection \<open>The header\<close>

text \<open>
  C7. \<open>IsNull\<close> of a header holds exactly when \<open>nBits\<close> is 0, whatever the other
  five fields are: overwriting them all leaves the answer as it was.
\<close>

theorem CBlockHeader_IsNull_iff_nBits_zero:
  "CBlockHeader_IsNull h = (nBits h = 0) \<and>
   CBlockHeader_IsNull (h\<lparr>nVersion := v, hashPrevBlock := p, hashMerkleRoot := m,
                           nTime := t, nNonce := k\<rparr>) = CBlockHeader_IsNull h"
  by (simp add: CBlockHeader_IsNull_def)

text \<open>
  C8. The hash of a block is a function of the six header fields: two blocks that
  agree on them have the same hash, whatever their transactions, signatures and
  memory-only members are.
\<close>

theorem GetHash_header_fields_only:
  fixes a b :: CBlock
  assumes "nVersion a = nVersion b" and "hashPrevBlock a = hashPrevBlock b"
    and "hashMerkleRoot a = hashMerkleRoot b" and "nTime a = nTime b"
    and "nBits a = nBits b" and "nNonce a = nNonce b"
  shows "GetHash Hash a = GetHash Hash b"
  using assms by (simp add: GetHash_def)

text \<open>Two blocks with the header of a new block, one of them with a transaction and a
  signature, under a hash that reads its input as a little-endian number.\<close>

theorem GetHash_header_fields_only_witness:
  "vtx (CBlock_new\<lparr>vtx := [\<lparr>vin = [], nTime = 7\<rparr>], vchBlockSig := [1, 2]\<rparr>) \<noteq> vtx CBlock_new \<and>
   vchBlockSig (CBlock_new\<lparr>vtx := [\<lparr>vin = [], nTime = 7\<rparr>], vchBlockSig := [1, 2]\<rparr>) \<noteq>
     vchBlockSig CBlock_new \<and>
   GetHash le_word (CBlock_new\<lparr>vtx := [\<lparr>vin = [], nTime = 7\<rparr>], vchBlockSig := [1, 2]\<rparr>) =
     GetHash le_word CBlock_new"
  using GetHash_header_fields_only
    [of "CBlock_new\<lparr>vtx := [\<lparr>vin = [], nTime = 7\<rparr>], vchBlockSig := [1, 2]\<rparr>" CBlock_new le_word]
  by (simp add: CBlock_new_def)

subsection \<open>The misbehaviour score\<close>

lemma sint_add_in_range:
  fixes a b :: "32 word"
  assumes "- (2 ^ 31) \<le> sint a + sint b" and "sint a + sint b < 2 ^ 31"
  shows "sint (a + b) = sint a + sint b"
  using assms by (simp add: sint_word_ariths signed_take_bit_int_eq_self)

text \<open>
  C10, as the code has it. For every score, amount and outcome \<open>DoS\<close> returns the
  outcome \<open>fIn\<close> as it was given and changes no member of the block but \<open>nDoS\<close>,
  which becomes the 32-bit sum; and when the sum of the score and the amount is a value
  of \<open>int\<close> (from \<open>-2^31\<close> to \<open>2^31 - 1\<close>) the new score is exactly that sum.
\<close>

theorem DoS_adds_amount_in_range:
  "fst (DoS nDoSIn fIn b) = b\<lparr>nDoS := nDoS b + nDoSIn\<rparr> \<and>
   snd (DoS nDoSIn fIn b) = fIn \<and>
   (- (2 ^ 31) \<le> sint (nDoS b) + sint nDoSIn \<and> sint (nDoS b) + sint nDoSIn < 2 ^ 31 \<longrightarrow>
      sint (nDoS (fst (DoS nDoSIn fIn b))) = sint (nDoS b) + sint nDoSIn)"
  by (simp add: DoS_def sint_add_in_range)

text \<open>The theorem at a score of 80 and an amount of 20, and, for the outcome, at the
  score \<open>2^31 - 1\<close> and the amount 1.\<close>

theorem DoS_adds_amount_in_range_witness:
  "fst (DoS 20 True (CBlock_new\<lparr>nDoS := 80\<rparr>)) = CBlock_new\<lparr>nDoS := 100\<rparr> \<and>
   snd (DoS 20 True (CBlock_new\<lparr>nDoS := 80\<rparr>)) = True \<and>
   sint (nDoS (fst (DoS 20 True (CBlock_new\<lparr>nDoS := 80\<rparr>)))) = 100 \<and>
   snd (DoS 1 False (CBlock_new\<lparr>nDoS := 2147483647\<rparr>)) = False"
  using DoS_adds_amount_in_range [where nDoSIn = 20 and fIn = True
      and b = "CBlock_new\<lparr>nDoS := 80\<rparr>"]
    DoS_adds_amount_in_range [where nDoSIn = 1 and fIn = False
      and b = "CBlock_new\<lparr>nDoS := 2147483647\<rparr>"]
  by simp

text \<open>C10 as stated fails for a score of \<open>2^31 - 1\<close> and an amount of 1: the sum is
  \<open>2^31\<close>, the score after the call is \<open>-2^31\<close>.\<close>

theorem DoS_overflow_counterexample:
  "sint (nDoS (fst (DoS 1 True (CBlock_new\<lparr>nDoS := 2147483647\<rparr>)))) = - 2147483648 \<and>
   sint (nDoS (CBlock_new\<lparr>nDoS := 2147483647\<rparr>)) + sint (1 :: int32) = 2147483648"
  by (simp add: DoS_def)

subsection \<open>Encoding a block\<close>

lemma ser_writedata32_four:
  "ser_writedata32 w =
     [ucast w, ucast (drop_bit 8 w), ucast (drop_bit 16 w), ucast (drop_bit 24 w)]"
proof -
  have "le_bytes (Suc (Suc (Suc (Suc 0)))) w =
      [ucast w, ucast (drop_bit 8 w), ucast (drop_bit 16 w), ucast (drop_bit 24 w)]"
    by simp
  moreover have "(4 :: nat) = Suc (Suc (Suc (Suc 0)))"
    by simp
  ultimately show ?thesis
    by (simp only: ser_writedata32_def)
qed

lemma fHeaderOnly_mini_env: "fHeaderOnly mini_env 131072" "\<not> fHeaderOnly mini_env 1"
  by (simp_all add: fHeaderOnly_def mini_env_def)

lemma nVersion_example_block: "nVersion (example_block v) = v"
  by (simp add: example_block_def)

lemma example_block_body_bytes:
  "Serialize_vector mini_WriteCompactSize mini_Serialize_tx (vtx (example_block v)) =
     [2, 7, 0, 0, 0, 8, 0, 0, 0]"
  "Serialize_vector mini_WriteCompactSize (\<lambda>c. [c]) (vchBlockSig (example_block v)) =
     [3, 1, 2, 3]"
  by (simp_all add: Serialize_vector_def mini_WriteCompactSize_def mini_Serialize_tx_def
      example_block_def ser_writedata32_four)

lemma take_4_CBlock_Serialize:
  "take 4 (CBlock_Serialize env nType b) = ser_writedata32 (nVersion b)"
  by (simp add: CBlock_Serialize_def CBlockHeader_Serialize_def ser_writedata32_def
      length_le_bytes)

text \<open>
  C3. A block of version 2 written in header-only mode is the encoding of its six
  header fields and nothing more; a block of version 3 written in header-only mode is
  the header followed by the transactions, without the signature; a block of version 4
  written in full mode is the header, the transactions and the signature, in this
  order.
\<close>

theorem CBlock_Serialize_by_version_and_mode:
  "(fHeaderOnly env nType \<and> nVersion b = 2 \<longrightarrow>
      CBlock_Serialize env nType b = CBlockHeader_Serialize (GetBlockHeader b)) \<and>
   (fHeaderOnly env nType \<and> nVersion b = 3 \<longrightarrow>
      CBlock_Serialize env nType b =
        CBlockHeader_Serialize (GetBlockHeader b) @
        Serialize_vector (WriteCompactSize env) (Serialize_tx env) (vtx b)) \<and>
   (\<not> fHeaderOnly env nType \<and> nVersion b = 4 \<longrightarrow>
      CBlock_Serialize env nType b =
        CBlockHeader_Serialize (GetBlockHeader b) @
        Serialize_vector (WriteCompactSize env) (Serialize_tx env) (vtx b) @
        Serialize_vector (WriteCompactSize env) (\<lambda>c. [c]) (vchBlockSig b))"
  by (simp add: CBlock_Serialize_def CBlockHeader_Serialize_def GetBlockHeader_def
      LEGACY_VERSION_3_def)

text \<open>The three cases on the example block, with the stream type \<open>1 << 17\<close> for
  header-only and 1 for full mode.\<close>

theorem CBlock_Serialize_by_version_and_mode_witness:
  "CBlock_Serialize mini_env 131072 (example_block 2) =
     CBlockHeader_Serialize (GetBlockHeader (example_block 2)) \<and>
   CBlock_Serialize mini_env 131072 (example_block 3) =
     CBlockHeader_Serialize (GetBlockHeader (example_block 3)) @ [2, 7, 0, 0, 0, 8, 0, 0, 0] \<and>
   CBlock_Serialize mini_env 1 (example_block 4) =
     CBlockHeader_Serialize (GetBlockHeader (example_block 4)) @ [2, 7, 0, 0, 0, 8, 0, 0, 0] @
     [3, 1, 2, 3]"
  using CBlock_Serialize_by_version_and_mode [of mini_env 131072 "example_block 2"]
    CBlock_Serialize_by_version_and_mode [of mini_env 131072 "example_block 3"]
    CBlock_Serialize_by_version_and_mode [of mini_env 1 "example_block 4"]
  by (simp add: fHeaderOnly_mini_env nVersion_example_block)
    (simp add: mini_env_def example_block_body_bytes)

subsection \<open>Decoding what was encoded\<close>

lemma mini_read_txs_two:
  "mini_read_txs 2 (ser_writedata32 t @ ser_writedata32 u @ r) [] =
     Done [\<lparr>vin = [], nTime = t\<rparr>, \<lparr>vin = [], nTime = u\<rparr>] r"
  by (simp add: numeral_2_eq_2 ser_readdata32_writedata32)

lemma mini_vtx_example:
  "mini_Unserialize_vtx (Serialize_vector mini_WriteCompactSize mini_Serialize_tx
      (vtx (example_block v)) @ r) w = Done (vtx (example_block v)) r"
  by (simp add: mini_Unserialize_vtx_def Serialize_vector_def mini_WriteCompactSize_def
      mini_Serialize_tx_def example_block_def mini_read_txs_two)

lemma mini_vch_example:
  "mini_Unserialize_vch (Serialize_vector mini_WriteCompactSize (\<lambda>c. [c])
      (vchBlockSig (example_block v)) @ r) w = Done (vchBlockSig (example_block v)) r"
  by (simp add: mini_Unserialize_vch_def Serialize_vector_def mini_WriteCompactSize_def
      example_block_def)

text \<open>
  C2, as the code has it. Let the vector readers read back the transactions and the
  signature of \<open>b\<close> as they were written, whatever follows them in the stream. Then
  reading the encoding of \<open>b\<close> in the mode it was written in, into any block \<open>d\<close>,
  succeeds, consumes exactly the encoding and gives \<open>d\<close> the six header fields of \<open>b\<close>.
  The transactions are those of \<open>b\<close>, but empty in header-only mode below version 3.
  The signature is that of \<open>b\<close> only in full mode from version 3 on; it is empty in
  header-only mode below version 3; in the two other cases (full mode below version 3,
  header-only mode from version 3 on) it is neither written nor read, and \<open>d\<close> keeps
  the signature it had. The memory-only members of \<open>d\<close> stay as they were.
\<close>

theorem CBlock_roundtrip:
  assumes vtx_ok: "\<forall>r v. Unserialize_vtx env
      (Serialize_vector (WriteCompactSize env) (Serialize_tx env) (vtx b) @ r) v =
      Done (vtx b) r"
    and sig_ok: "\<forall>r v. Unserialize_vch env
      (Serialize_vector (WriteCompactSize env) (\<lambda>c. [c]) (vchBlockSig b) @ r) v =
      Done (vchBlockSig b) r"
  shows "CBlock_Unserialize env nType (CBlock_Serialize env nType b @ r) d =
     Done (d\<lparr>nVersion := nVersion b, hashPrevBlock := hashPrevBlock b,
             hashMerkleRoot := hashMerkleRoot b, nTime := nTime b, nBits := nBits b,
             nNonce := nNonce b,
             vtx := (if fHeaderOnly env nType \<and> sint (nVersion b) < 3 then [] else vtx b),
             vchBlockSig :=
               (if \<not> fHeaderOnly env nType \<and> 3 \<le> sint (nVersion b) then vchBlockSig b
                else if fHeaderOnly env nType \<and> sint (nVersion b) < 3 then []
                else vchBlockSig d)\<rparr>) r"
  using assms
  by (simp add: CBlock_Unserialize_def CBlock_Serialize_def CBlockHeader_roundtrip
      and_then_def read_member_def LEGACY_VERSION_3_def)

text \<open>The four combinations of mode and version on the example block: full mode and
  version 4 gives the block back; header-only mode and version 4, and full mode and
  version 2, give it back without its signature when read into a new block;
  header-only mode and version 2 empties the transactions and the signature of the
  block that is read into.\<close>

theorem CBlock_roundtrip_witness:
  "CBlock_Unserialize mini_env 1
     (CBlock_Serialize mini_env 1 (example_block 4) @ []) CBlock_new =
     Done (example_block 4) [] \<and>
   CBlock_Unserialize mini_env 131072
     (CBlock_Serialize mini_env 131072 (example_block 4) @ []) CBlock_new =
     Done ((example_block 4)\<lparr>vchBlockSig := []\<rparr>) [] \<and>
   CBlock_Unserialize mini_env 1
     (CBlock_Serialize mini_env 1 (example_block 2) @ []) CBlock_new =
     Done ((example_block 2)\<lparr>vchBlockSig := []\<rparr>) [] \<and>
   CBlock_Unserialize mini_env 131072
     (CBlock_Serialize mini_env 131072 (example_block 2) @ []) (example_block 4) =
     Done ((example_block 2)\<lparr>vtx := [], vchBlockSig := []\<rparr>) []"
  using CBlock_roundtrip [of mini_env "example_block 4" 1 "[]" CBlock_new]
    CBlock_roundtrip [of mini_env "example_block 4" 131072 "[]" CBlock_new]
    CBlock_roundtrip [of mini_env "example_block 2" 1 "[]" CBlock_new]
    CBlock_roundtrip [of mini_env "example_block 2" 131072 "[]" "example_block 4"]
  apply (simp add: fHeaderOnly_mini_env nVersion_example_block)
  apply (simp add: mini_env_def mini_vtx_example mini_vch_example)
  apply (simp add: example_block_def CBlock_new_def)
  done

text \<open>C2 as stated fails: a block of version 4 with a signature of three bytes,
  written and read in header-only mode, comes back with an empty signature.\<close>

theorem CBlock_roundtrip_signature_counterexample:
  "CBlock_Unserialize mini_env 131072
     (CBlock_Serialize mini_env 131072 (example_block 4)) CBlock_new =
     Done ((example_block 4)\<lparr>vchBlockSig := []\<rparr>) [] \<and>
   vchBlockSig (example_block 4) = [1, 2, 3]"
  apply (simp add: CBlock_Unserialize_def CBlock_Serialize_def and_then_def read_member_def
      fHeaderOnly_mini_env nVersion_example_block LEGACY_VERSION_3_def CBlockHeader_roundtrip)
  apply (simp add: mini_env_def mini_vtx_example [where r = "[]", simplified])
  apply (simp add: example_block_def CBlock_new_def)
  done

subsection \<open>Decoding a truncated stream\<close>

lemma CBlockHeader_Unserialize_truncated:
  assumes "length s < 80"
  shows "CBlockHeader_Unserialize s h =
    Threw (h\<lparr>nVersion := (if 4 \<le> length s then le_word (take 4 s) else nVersion h),
        hashPrevBlock :=
          (if 36 \<le> length s then le_word (take 32 (drop 4 s)) else hashPrevBlock h),
        hashMerkleRoot :=
          (if 68 \<le> length s then le_word (take 32 (drop 36 s)) else hashMerkleRoot h),
        nTime := (if 72 \<le> length s then le_word (take 4 (drop 68 s)) else nTime h),
        nBits := (if 76 \<le> length s then le_word (take 4 (drop 72 s)) else nBits h)\<rparr>)"
proof -
  note defs = CBlockHeader_Unserialize_def and_then_def read_into_def ser_readdata32_def
    uint256_Unserialize_def read_le_def
  consider "length s < 4" | "4 \<le> length s" "length s < 36"
    | "36 \<le> length s" "length s < 68" | "68 \<le> length s" "length s < 72"
    | "72 \<le> length s" "length s < 76" | "76 \<le> length s" "length s < 80"
    using assms by linarith
  then show ?thesis
  proof cases
    case 1
    then show ?thesis by (simp add: defs)
  next
    case 2
    then show ?thesis by (simp add: defs)
  next
    case 3
    then show ?thesis by (simp add: defs)
  next
    case 4
    then show ?thesis by (simp add: defs)
  next
    case 5
    then show ?thesis by (simp add: defs)
  next
    case 6
    then show ?thesis by (simp add: defs)
  qed
qed

lemma CBlockHeader_Unserialize_whole:
  assumes "80 \<le> length s"
  shows "CBlockHeader_Unserialize s h =
    Done (h\<lparr>nVersion := le_word (take 4 s),
        hashPrevBlock := le_word (take 32 (drop 4 s)),
        hashMerkleRoot := le_word (take 32 (drop 36 s)),
        nTime := le_word (take 4 (drop 68 s)),
        nBits := le_word (take 4 (drop 72 s)),
        nNonce := le_word (take 4 (drop 76 s))\<rparr>) (drop 80 s)"
proof -
  from assms have "\<not> length s < 4" "\<not> length s - 4 < 32" "\<not> length s - 36 < 32"
    "\<not> length s - 68 < 4" "\<not> length s - 72 < 4" "\<not> length s - 76 < 4"
    by arith+
  then show ?thesis
    by (simp add: CBlockHeader_Unserialize_def and_then_def read_into_def ser_readdata32_def
        uint256_Unserialize_def read_le_def)
qed

lemma header_fields_of_encoding:
  "d\<lparr>nVersion := le_word (take 4 (CBlockHeader_Serialize b @ x)),
     hashPrevBlock := le_word (take 32 (drop 4 (CBlockHeader_Serialize b @ x))),
     hashMerkleRoot := le_word (take 32 (drop 36 (CBlockHeader_Serialize b @ x))),
     nTime := le_word (take 4 (drop 68 (CBlockHeader_Serialize b @ x))),
     nBits := le_word (take 4 (drop 72 (CBlockHeader_Serialize b @ x))),
     nNonce := le_word (take 4 (drop 76 (CBlockHeader_Serialize b @ x)))\<rparr> =
   d\<lparr>nVersion := nVersion b, hashPrevBlock := hashPrevBlock b,
     hashMerkleRoot := hashMerkleRoot b, nTime := nTime b, nBits := nBits b,
     nNonce := nNonce b\<rparr>"
proof -
  have "80 \<le> length (CBlockHeader_Serialize b @ x)"
    by (simp add: length_CBlockHeader_Serialize)
  from CBlockHeader_Unserialize_whole [OF this, of d] CBlockHeader_roundtrip [of b x d]
  show ?thesis by simp
qed

lemma example_block_header:
  "(example_block w)\<lparr>nVersion := nVersion (example_block v),
     hashPrevBlock := hashPrevBlock (example_block v),
     hashMerkleRoot := hashMerkleRoot (example_block v), nTime := nTime (example_block v),
     nBits := nBits (example_block v), nNonce := nNonce (example_block v)\<rparr> =
   example_block v"
  by (simp add: example_block_def CBlock_new_def)

lemma drop_80_header: "drop 80 (CBlockHeader_Serialize b @ x) = x"
  by (simp add: length_CBlockHeader_Serialize)

lemma mini_read_txs_cut: "mini_read_txs 2 [7, 0] [] = Threw []"
proof -
  have "mini_read_txs (Suc (Suc 0)) [7, 0] [] = Threw []"
    by (simp add: ser_readdata32_def read_le_def)
  then show ?thesis
    by (simp only: numeral_2_eq_2)
qed

lemma mini_vtx_cut: "mini_Unserialize_vtx [2, 7, 0] w = Threw []"
  by (simp add: mini_Unserialize_vtx_def mini_read_txs_cut)

lemma mini_vtx_whole:
  "mini_Unserialize_vtx ([2, 7, 0, 0, 0, 8, 0, 0, 0] @ r) w = Done (vtx (example_block v)) r"
  using mini_vtx_example [of v r w] by (simp add: example_block_body_bytes)

lemma mini_vch_cut: "mini_Unserialize_vch [3, 1] w = Threw []"
  by (simp add: mini_Unserialize_vch_def)

text \<open>
  C6, as the code has it. Decoding fails whenever one of its reads fails, but it is not
  all-or-nothing: what was read before the failure stays in the block read into.
  A stream that ends inside the 80 bytes of the header makes the read throw, with every
  header field whose bytes the stream still held overwritten and all else as before
  (so a stream of fewer than 4 bytes leaves the block as it was). With the header read
  (\<open>h\<close> is the block with its six fields taken from the stream), a throw of the reader
  of the transactions, where the mode and the version read call for them, makes the
  read throw with the header of \<open>h\<close> and the transactions as that reader left them;
  and a throw of the reader of the signature, in full mode from version 3 on, makes
  the read throw with the header, the transactions read and the signature as that
  reader left it.
\<close>

theorem CBlock_Unserialize_failure:
  assumes "h = d\<lparr>nVersion := le_word (take 4 s),
        hashPrevBlock := le_word (take 32 (drop 4 s)),
        hashMerkleRoot := le_word (take 32 (drop 36 s)),
        nTime := le_word (take 4 (drop 68 s)),
        nBits := le_word (take 4 (drop 72 s)),
        nNonce := le_word (take 4 (drop 76 s))\<rparr>"
  shows "(length s < 80 \<longrightarrow>
      threw (CBlock_Unserialize env nType s d) \<and>
      object_left (CBlock_Unserialize env nType s d) =
        d\<lparr>nVersion := (if 4 \<le> length s then le_word (take 4 s) else nVersion d),
          hashPrevBlock :=
            (if 36 \<le> length s then le_word (take 32 (drop 4 s)) else hashPrevBlock d),
          hashMerkleRoot :=
            (if 68 \<le> length s then le_word (take 32 (drop 36 s)) else hashMerkleRoot d),
          nTime := (if 72 \<le> length s then le_word (take 4 (drop 68 s)) else nTime d),
          nBits := (if 76 \<le> length s then le_word (take 4 (drop 72 s)) else nBits d)\<rparr>) \<and>
    (length s < 4 \<longrightarrow> object_left (CBlock_Unserialize env nType s d) = d) \<and>
    (80 \<le> length s \<and> (\<not> fHeaderOnly env nType \<or> 3 \<le> sint (nVersion h)) \<and>
     Unserialize_vtx env (drop 80 s) (vtx d) = Threw v \<longrightarrow>
       CBlock_Unserialize env nType s d = Threw (h\<lparr>vtx := v\<rparr>)) \<and>
    (80 \<le> length s \<and> \<not> fHeaderOnly env nType \<and> 3 \<le> sint (nVersion h) \<and>
     Unserialize_vtx env (drop 80 s) (vtx d) = Done v s' \<and>
     Unserialize_vch env s' (vchBlockSig d) = Threw g \<longrightarrow>
       CBlock_Unserialize env nType s d = Threw (h\<lparr>vtx := v, vchBlockSig := g\<rparr>))"
proof (intro conjI impI)
  assume short: "length s < 80"
  show "threw (CBlock_Unserialize env nType s d)"
    by (simp only: CBlock_Unserialize_def CBlockHeader_Unserialize_truncated [OF short]
        and_then_def unser.case threw.simps)
  show "object_left (CBlock_Unserialize env nType s d) =
        d\<lparr>nVersion := (if 4 \<le> length s then le_word (take 4 s) else nVersion d),
          hashPrevBlock :=
            (if 36 \<le> length s then le_word (take 32 (drop 4 s)) else hashPrevBlock d),
          hashMerkleRoot :=
            (if 68 \<le> length s then le_word (take 32 (drop 36 s)) else hashMerkleRoot d),
          nTime := (if 72 \<le> length s then le_word (take 4 (drop 68 s)) else nTime d),
          nBits := (if 76 \<le> length s then le_word (take 4 (drop 72 s)) else nBits d)\<rparr>"
    by (simp only: CBlock_Unserialize_def CBlockHeader_Unserialize_truncated [OF short]
        and_then_def unser.case object_left.simps)
next
  assume "length s < 4"
  then have short: "length s < 80" by simp
  from \<open>length s < 4\<close> show "object_left (CBlock_Unserialize env nType s d) = d"
    by (simp add: CBlock_Unserialize_def CBlockHeader_Unserialize_truncated [OF short]
        and_then_def)
next
  assume a: "80 \<le> length s \<and> (\<not> fHeaderOnly env nType \<or> 3 \<le> sint (nVersion h)) \<and>
     Unserialize_vtx env (drop 80 s) (vtx d) = Threw v"
  then have len: "80 \<le> length s" by simp
  from a show "CBlock_Unserialize env nType s d = Threw (h\<lparr>vtx := v\<rparr>)"
    unfolding assms
    by (simp add: CBlock_Unserialize_def CBlockHeader_Unserialize_whole [OF len] and_then_def
        read_member_def LEGACY_VERSION_3_def)
next
  assume a: "80 \<le> length s \<and> \<not> fHeaderOnly env nType \<and> 3 \<le> sint (nVersion h) \<and>
     Unserialize_vtx env (drop 80 s) (vtx d) = Done v s' \<and>
     Unserialize_vch env s' (vchBlockSig d) = Threw g"
  then have len: "80 \<le> length s" by simp
  from a show "CBlock_Unserialize env nType s d = Threw (h\<lparr>vtx := v, vchBlockSig := g\<rparr>)"
    unfolding assms
    by (simp add: CBlock_Unserialize_def CBlockHeader_Unserialize_whole [OF len] and_then_def
        read_member_def LEGACY_VERSION_3_def)
qed

text \<open>The theorem on streams of four and of two bytes read into a new block, and on
  the encoding of the example block of version 4, cut inside the transactions and cut
  inside the signature, read in full mode into the example block of version 2.\<close>

theorem CBlock_Unserialize_failure_witness:
  "threw (CBlock_Unserialize mini_env 1 [4, 0, 0, 0] CBlock_new) \<and>
   object_left (CBlock_Unserialize mini_env 1 [4, 0, 0, 0] CBlock_new) =
     CBlock_new\<lparr>nVersion := 4\<rparr> \<and>
   object_left (CBlock_Unserialize mini_env 1 [4, 0] CBlock_new) = CBlock_new \<and>
   CBlock_Unserialize mini_env 1 (CBlockHeader_Serialize (example_block 4) @ [2, 7, 0])
     (example_block 2) = Threw ((example_block 4)\<lparr>vtx := []\<rparr>) \<and>
   CBlock_Unserialize mini_env 1
     (CBlockHeader_Serialize (example_block 4) @ [2, 7, 0, 0, 0, 8, 0, 0, 0] @ [3, 1])
     (example_block 2) = Threw ((example_block 4)\<lparr>vchBlockSig := []\<rparr>)"
proof -
  have a: "threw (CBlock_Unserialize mini_env 1 [4, 0, 0, 0] CBlock_new) \<and>
      object_left (CBlock_Unserialize mini_env 1 [4, 0, 0, 0] CBlock_new) =
        CBlock_new\<lparr>nVersion := 4\<rparr>"
    using CBlock_Unserialize_failure [OF refl, where s = "[4, 0, 0, 0]" and d = CBlock_new
        and env = mini_env and nType = 1]
    by (simp add: CBlock_new_def)
  have b: "object_left (CBlock_Unserialize mini_env 1 [4, 0] CBlock_new) = CBlock_new"
    using CBlock_Unserialize_failure [OF refl, where s = "[4, 0]" and d = CBlock_new
        and env = mini_env and nType = 1]
    by simp
  have h: "example_block 4 = (example_block 2)
      \<lparr>nVersion := le_word (take 4 (CBlockHeader_Serialize (example_block 4) @ x)),
       hashPrevBlock :=
         le_word (take 32 (drop 4 (CBlockHeader_Serialize (example_block 4) @ x))),
       hashMerkleRoot :=
         le_word (take 32 (drop 36 (CBlockHeader_Serialize (example_block 4) @ x))),
       nTime := le_word (take 4 (drop 68 (CBlockHeader_Serialize (example_block 4) @ x))),
       nBits := le_word (take 4 (drop 72 (CBlockHeader_Serialize (example_block 4) @ x))),
       nNonce := le_word (take 4 (drop 76 (CBlockHeader_Serialize (example_block 4) @ x)))\<rparr>"
    for x
    by (simp only: header_fields_of_encoding example_block_header)
  have c: "CBlock_Unserialize mini_env 1 (CBlockHeader_Serialize (example_block 4) @ [2, 7, 0])
      (example_block 2) = Threw ((example_block 4)\<lparr>vtx := []\<rparr>)"
    using CBlock_Unserialize_failure [OF h [of "[2, 7, 0]"], where env = mini_env
        and nType = 1 and v = "[]"]
    by (simp add: drop_80_header length_CBlockHeader_Serialize fHeaderOnly_mini_env)
      (simp add: mini_env_def mini_vtx_cut)
  have d: "CBlock_Unserialize mini_env 1
      (CBlockHeader_Serialize (example_block 4) @ [2, 7, 0, 0, 0, 8, 0, 0, 0] @ [3, 1])
      (example_block 2) = Threw ((example_block 4)\<lparr>vchBlockSig := []\<rparr>)"
    using CBlock_Unserialize_failure [OF h [of "[2, 7, 0, 0, 0, 8, 0, 0, 0] @ [3, 1]"],
        where env = mini_env and nType = 1 and v = "vtx (example_block 4)"
        and s' = "[3, 1]" and g = "[]"]
    apply (simp only: drop_80_header)
    apply (simp add: length_CBlockHeader_Serialize fHeaderOnly_mini_env nVersion_example_block)
    apply (simp add: mini_env_def mini_vtx_whole [of "[3, 1]", simplified] mini_vch_cut)
    done
  from a b c d show ?thesis by simp
qed

text \<open>C6 as stated fails: the first four bytes of the encoding of a block of version 4,
  read into a new block, make the read throw and leave the version 4 in that block.\<close>

theorem CBlock_Unserialize_not_atomic_counterexample:
  "take 4 (CBlock_Serialize mini_env 1 (example_block 4)) = [4, 0, 0, 0] \<and>
   CBlock_Unserialize mini_env 1 [4, 0, 0, 0] CBlock_new =
     Threw (CBlock_new\<lparr>nVersion := 4\<rparr>) \<and>
   CBlock_new\<lparr>nVersion := 4\<rparr> \<noteq> CBlock_new"
proof -
  have "take 4 (CBlock_Serialize mini_env 1 (example_block 4)) = [4, 0, 0, 0]"
    by (simp add: take_4_CBlock_Serialize example_block_def ser_writedata32_four)
  moreover have "CBlock_Unserialize mini_env 1 [4, 0, 0, 0] CBlock_new =
      Threw (CBlock_new\<lparr>nVersion := 4\<rparr>)"
    by (simp add: CBlock_Unserialize_def CBlockHeader_Unserialize_def and_then_def
        read_into_def ser_readdata32_def uint256_Unserialize_def read_le_def)
  moreover have "CBlock_new\<lparr>nVersion := 4\<rparr> \<noteq> CBlock_new"
    by (simp add: CBlock_new_def)
  ultimately show ?thesis
    by simp
qed

subsection \<open>The locator\<close>

text \<open>
  C9. Outside a hashing context (the stream type has no \<open>SER_GETHASH\<close> bit) a locator
  with no hashes is written as the four bytes of the stream's version followed by the
  length prefix of 0, and nothing else; and \<open>IsNull\<close> of a locator holds exactly when
  it has no hashes.
\<close>

theorem CBlockLocator_empty_encoding:
  "(nType AND SER_GETHASH env = 0 \<longrightarrow>
      CBlockLocator_Serialize env nType sVersion \<lparr>vHave = []\<rparr> =
        ser_writedata32 sVersion @ WriteCompactSize env 0) \<and>
   length (ser_writedata32 sVersion) = 4 \<and>
   CBlockLocator_IsNull l = (vHave l = [])"
  by (simp add: CBlockLocator_Serialize_def Serialize_vector_def CBlockLocator_IsNull_def
      ser_writedata32_def length_le_bytes)

theorem CBlockLocator_empty_encoding_witness:
  "CBlockLocator_Serialize mini_env 1 70015 \<lparr>vHave = []\<rparr> = [127, 17, 1, 0, 0] \<and>
   length (ser_writedata32 70015) = 4 \<and>
   CBlockLocator_IsNull \<lparr>vHave = []\<rparr>"
  using CBlockLocator_empty_encoding [of 1 mini_env 70015 "\<lparr>vHave = []\<rparr>"]
  by (simp add: mini_env_def mini_WriteCompactSize_def ser_writedata32_four)

end
